theory Spec2Isabelle
  imports Main
begin

section \<open>The syntax tree\<close>

text \<open>
  The plugin (src/simplify-plugin/index.js) works on the host's ESTree-shaped nodes:
  one JavaScript object per node, tagged by its \<open>type\<close>. Every slot of a node may hold
  \<open>null\<close> or \<open>undefined\<close>, and the rules test slots for truthiness
  (\<open>if (node.argument)\<close>, \<open>!node.alternate\<close>), so the tree has one type with a
  constructor \<open>Null\<close> for an empty slot. Operators and declaration kinds are the
  strings the source compares with.
\<close>

datatype literal = LBool bool | LNum int | LStr string | LNull

datatype node =
    Null
  | Identifier string
  | Literal literal
  | UnaryExpression string node bool
  | BinaryExpression string node node
  | LogicalExpression string node node
  | ConditionalExpression node node node
  | SequenceExpression "node list"
  | CallExpression node "node list"
  | MemberExpression node node bool
  | Property node node bool
  | FunctionExpression node "node list" node
  | FunctionDeclaration node "node list" node
  | VariableDeclarator node node
  | VariableDeclaration string "node list"
  | ExpressionStatement node
  | ReturnStatement node
  | IfStatement node node node
  | ForStatement node node node node
  | ForInStatement node node node
  | ForOfStatement node node node
  | WhileStatement node node
  | DoWhileStatement node node
  | BlockStatement "node list"
  | Program "node list"
  | OtherExpression string "node list"
  | OtherStatement string "node list"

text \<open>
  \<open>OtherExpression\<close> and \<open>OtherStatement\<close> stand for the node kinds no rule of the
  plugin names (\<open>ThrowStatement\<close>, \<open>TryStatement\<close>, \<open>ObjectExpression\<close>, ...): the
  kind tag and the children in source order.
\<close>

subsection \<open>Kind tests (\<open>t.isX\<close>) and slot reads\<close>

fun isExpression :: "node \<Rightarrow> bool" where
  "isExpression (Identifier _) = True"
| "isExpression (Literal _) = True"
| "isExpression (UnaryExpression _ _ _) = True"
| "isExpression (BinaryExpression _ _ _) = True"
| "isExpression (LogicalExpression _ _ _) = True"
| "isExpression (ConditionalExpression _ _ _) = True"
| "isExpression (SequenceExpression _) = True"
| "isExpression (CallExpression _ _) = True"
| "isExpression (MemberExpression _ _ _) = True"
| "isExpression (FunctionExpression _ _ _) = True"
| "isExpression (OtherExpression _ _) = True"
| "isExpression _ = False"

fun isExpressionStatement :: "node \<Rightarrow> bool" where
  "isExpressionStatement (ExpressionStatement _) = True"
| "isExpressionStatement _ = False"

fun isReturnStatement :: "node \<Rightarrow> bool" where
  "isReturnStatement (ReturnStatement _) = True"
| "isReturnStatement _ = False"

fun isIfStatement :: "node \<Rightarrow> bool" where
  "isIfStatement (IfStatement _ _ _) = True"
| "isIfStatement _ = False"

fun isBlockStatement :: "node \<Rightarrow> bool" where
  "isBlockStatement (BlockStatement _) = True"
| "isBlockStatement _ = False"

fun isForStatement :: "node \<Rightarrow> bool" where
  "isForStatement (ForStatement _ _ _ _) = True"
| "isForStatement _ = False"

fun isSequenceExpression :: "node \<Rightarrow> bool" where
  "isSequenceExpression (SequenceExpression _) = True"
| "isSequenceExpression _ = False"

text \<open>\<open>path.isVariableDeclaration()\<close> and \<open>path.isVariableDeclaration({ kind: k })\<close>.\<close>

fun isVariableDeclaration :: "node \<Rightarrow> bool" where
  "isVariableDeclaration (VariableDeclaration _ _) = True"
| "isVariableDeclaration _ = False"

fun isVariableDeclarationOfKind :: "string \<Rightarrow> node \<Rightarrow> bool" where
  "isVariableDeclarationOfKind k (VariableDeclaration kind _) = (kind = k)"
| "isVariableDeclarationOfKind _ _ = False"

text \<open>
  Reading a property the node does not have gives \<open>undefined\<close> in JavaScript: the
  slot readers return \<open>Null\<close> (or the empty list) on every other kind.
\<close>

fun test_of :: "node \<Rightarrow> node" where
  "test_of (IfStatement t _ _) = t"
| "test_of (ConditionalExpression t _ _) = t"
| "test_of (ForStatement _ t _ _) = t"
| "test_of (WhileStatement t _) = t"
| "test_of (DoWhileStatement _ t) = t"
| "test_of _ = Null"

fun consequent_of :: "node \<Rightarrow> node" where
  "consequent_of (IfStatement _ c _) = c"
| "consequent_of (ConditionalExpression _ c _) = c"
| "consequent_of _ = Null"

fun alternate_of :: "node \<Rightarrow> node" where
  "alternate_of (IfStatement _ _ a) = a"
| "alternate_of (ConditionalExpression _ _ a) = a"
| "alternate_of _ = Null"

fun expression_of :: "node \<Rightarrow> node" where
  "expression_of (ExpressionStatement e) = e"
| "expression_of _ = Null"

fun argument_of :: "node \<Rightarrow> node" where
  "argument_of (ReturnStatement a) = a"
| "argument_of (UnaryExpression _ a _) = a"
| "argument_of _ = Null"

fun init_of :: "node \<Rightarrow> node" where
  "init_of (ForStatement i _ _ _) = i"
| "init_of (VariableDeclarator _ i) = i"
| "init_of _ = Null"

fun kind_of :: "node \<Rightarrow> string" where
  "kind_of (VariableDeclaration k _) = k"
| "kind_of _ = []"

fun declarations_of :: "node \<Rightarrow> node list" where
  "declarations_of (VariableDeclaration _ ds) = ds"
| "declarations_of _ = []"

fun body_of :: "node \<Rightarrow> node list" where
  "body_of (BlockStatement b) = b"
| "body_of (Program b) = b"
| "body_of _ = []"

text \<open>\<open>a || b\<close> on node slots: the first operand unless it is empty.\<close>

definition or_else :: "node \<Rightarrow> node \<Rightarrow> node" where
  "or_else a b = (if a \<noteq> Null then a else b)"

text \<open>\<open>const VOID_0 = t.unaryExpression('void', t.literal(0), true)\<close>\<close>

definition VOID_0 :: node where
  "VOID_0 = UnaryExpression ''void'' (Literal (LNum 0)) True"

text \<open>
  \<open>t.unaryExpression('void', e)\<close>, the builder called without its third argument:
  the omitted \<open>prefix\<close> is \<open>undefined\<close>, which is falsy.
\<close>

definition void_of :: "node \<Rightarrow> node" where
  "void_of e = UnaryExpression ''void'' e False"

section \<open>The path handle\<close>

text \<open>
  A hook receives the node and, as \<open>this\<close>, the host's path: the list that holds the
  node (\<open>container\<close>) with the node's index (\<open>key\<close>) when \<open>inList\<close>, and the host's
  answer to \<open>isCompletionRecord()\<close>. A hook edits the node in place, removes siblings
  and may remove the node itself; the model passes the path in and returns it updated.
  While a hook runs, \<open>node\<close> is the current node and slot \<open>key\<close> of \<open>container\<close> is its
  place among its siblings.
\<close>

record path =
  node :: node
  container :: "node list"
  key :: nat
  inList :: bool
  completionRecord :: bool
  removed :: bool
  insertedAfter :: "node list"

text \<open>
  \<open>this.getSibling(k)\<close>: the path of \<open>container[k]\<close>. Outside a list the key is a
  property name, \<open>key + 1\<close> is a string no node has as a property and \<open>key - 1\<close> is
  \<open>NaN\<close>; an index outside the list reads \<open>undefined\<close>. In each case the sibling's
  node is empty.
\<close>

definition getSibling :: "path \<Rightarrow> int \<Rightarrow> node" where
  "getSibling p k =
     (if inList p \<and> 0 \<le> k \<and> k < int (length (container p))
      then container p ! nat k else Null)"

text \<open>
  \<open>sibling.dangerouslyRemove()\<close> on the sibling at index \<open>k\<close>: the element leaves the
  list, the later ones shift left, and the current node's key follows when the removed
  element was before it.
\<close>

definition removeSibling :: "nat \<Rightarrow> path \<Rightarrow> path" where
  "removeSibling k p =
     p\<lparr>container := take k (container p) @ drop (Suc k) (container p),
       key := (if k < key p then key p - 1 else key p)\<rparr>"

text \<open>\<open>this.dangerouslyRemove()\<close>: the current node leaves its list.\<close>

definition removeSelf :: "path \<Rightarrow> path" where
  "removeSelf p =
     p\<lparr>container := take (key p) (container p) @ drop (Suc (key p)) (container p),
       removed := True\<rparr>"

section \<open>The rewrite rules\<close>

subsection \<open>LogicalExpression\<close>

text \<open>
  \<^verbatim>\<open>
  LogicalExpression(node) {
    if (node.operator === '&&' && t.isUnaryExpression(node.left, { operator: '!' })) {
      node.operator = '||';
      node.left = node.left.argument;
    }
  }\<close>
\<close>

fun LogicalExpression_visitor :: "node \<Rightarrow> node" where
  "LogicalExpression_visitor (LogicalExpression op (UnaryExpression uop arg prefix) right) =
     (if op = ''&&'' \<and> uop = ''!''
      then LogicalExpression ''||'' arg right
      else LogicalExpression op (UnaryExpression uop arg prefix) right)"
| "LogicalExpression_visitor n = n"

subsection \<open>BinaryExpression, first enter hook: flip towards a pure right operand\<close>

definition EQUALITY_BINARY_OPERATORS :: "string list" where
  "EQUALITY_BINARY_OPERATORS = [''=='', ''==='', ''!='', ''!=='']"

text \<open>
  \<open>this.get('right').isPure()\<close> is answered by the host's scope analysis; the rule
  takes it as the parameter \<open>isPure\<close>.
\<close>

fun BinaryExpression_enter0 :: "(node \<Rightarrow> bool) \<Rightarrow> node \<Rightarrow> node" where
  "BinaryExpression_enter0 isPure (BinaryExpression op left right) =
     (if op \<in> set EQUALITY_BINARY_OPERATORS \<and> isPure right
      then BinaryExpression op right left
      else BinaryExpression op left right)"
| "BinaryExpression_enter0 isPure n = n"

text \<open>
  A purity test that holds of literals only, the least any scope analysis grants
  (evaluating a literal has no effect and cannot throw).
\<close>

fun literalsArePure :: "node \<Rightarrow> bool" where
  "literalsArePure (Literal _) = True"
| "literalsArePure _ = False"

subsection \<open>flipNegation\<close>

text \<open>
  \<^verbatim>\<open>
  function flipNegation(node) {
    if (!node.consequent || !node.alternate) return;
    let test = node.test; let flip = false;
    if (t.isBinaryExpression(test)) {
      if (test.operator === '!==') { test.operator = '==='; flip = true; }
      if (test.operator === '!=')  { test.operator = '==';  flip = true; }
    }
    if (t.isUnaryExpression(test, { operator: '!' })) { node.test = test.argument; flip = true; }
    if (flip) { swap node.consequent and node.alternate }
  }\<close>
  \<open>flippedTest\<close> is the new test when the rule flips, \<open>None\<close> when it does not.
\<close>

fun flippedTest :: "node \<Rightarrow> node option" where
  "flippedTest (BinaryExpression op l r) =
     (if op = ''!=='' then Some (BinaryExpression ''==='' l r)
      else if op = ''!='' then Some (BinaryExpression ''=='' l r)
      else None)"
| "flippedTest (UnaryExpression op arg prefix) =
     (if op = ''!'' then Some arg else None)"
| "flippedTest _ = None"

fun flipNegation :: "node \<Rightarrow> node" where
  "flipNegation (IfStatement test c a) =
     (if c = Null \<or> a = Null then IfStatement test c a
      else case flippedTest test of
             None \<Rightarrow> IfStatement test c a
           | Some test' \<Rightarrow> IfStatement test' a c)"
| "flipNegation (ConditionalExpression test c a) =
     (if c = Null \<or> a = Null then ConditionalExpression test c a
      else case flippedTest test of
             None \<Rightarrow> ConditionalExpression test c a
           | Some test' \<Rightarrow> ConditionalExpression test' a c)"
| "flipNegation n = n"

subsection \<open>IfStatement, first exit hook\<close>

text \<open>
  \<^verbatim>\<open>
  function coerceIf(key) {
    let block = node[key];
    if (!block || !t.isBlockStatement(block)) return;
    let body = block.body;
    if (body.length !== 1) return;
    let first = body[0];
    if (t.isVariableDeclaration(first) && first.kind !== 'let') return;
    node[key] = first;
  }\<close>
  \<open>coerceBranch\<close> is the new value of the slot \<open>node[key]\<close>.
\<close>

fun coerceBranch :: "node \<Rightarrow> node" where
  "coerceBranch (BlockStatement [first]) =
     (if isVariableDeclaration first \<and> kind_of first \<noteq> ''let''
      then BlockStatement [first] else first)"
| "coerceBranch block = block"

fun coerceIf :: "string \<Rightarrow> node \<Rightarrow> node" where
  "coerceIf k (IfStatement test c a) =
     (if k = ''consequent'' then IfStatement test (coerceBranch c) a
      else if k = ''alternate'' then IfStatement test c (coerceBranch a)
      else IfStatement test c a)"
| "coerceIf k n = n"

text \<open>\<open>body[body.length - 1]\<close>: \<open>undefined\<close> on an empty body.\<close>

definition lastStatement :: "node list \<Rightarrow> node" where
  "lastStatement body = (if body = [] then Null else last body)"

text \<open>
  The hook returns the replacement (\<open>Null\<close> when it returns nothing) and leaves the
  path updated: the node after \<open>coerceIf\<close> and \<open>flipNegation\<close>, a consumed next
  sibling removed, the lifted \<open>alternate\<close> handed to \<open>insertAfter\<close>. The branches
  follow lines 299 to 384 of the source in order.
\<close>

definition IfStatement_exit0 :: "path \<Rightarrow> node \<times> path" where
  "IfStatement_exit0 p0 =
     (let n = flipNegation (coerceIf ''alternate'' (coerceIf ''consequent'' (node p0)));
          p = p0\<lparr>node := n\<rparr>;
          test = test_of n; consequent = consequent_of n; alternate = alternate_of n;
          next = getSibling p (int (key p) + 1)
      in
      if consequent \<noteq> Null \<and> alternate = Null \<and> isExpressionStatement consequent
           \<and> \<not> completionRecord p
      then (ExpressionStatement
              (LogicalExpression ''&&'' test (expression_of consequent)), p)
      else if isExpressionStatement consequent \<and> isExpressionStatement alternate
      then (ConditionalExpression test (expression_of consequent)
              (expression_of alternate), p)
      else if isReturnStatement consequent \<and> isReturnStatement alternate
           \<and> getSibling p (int (key p) + 1) = Null
      then (ReturnStatement
              (ConditionalExpression test
                 (or_else (argument_of consequent) VOID_0)
                 (argument_of alternate)), p)
      else if isReturnStatement consequent \<and> alternate = Null \<and> isReturnStatement next
      then (ReturnStatement
              (ConditionalExpression test
                 (or_else (argument_of consequent) VOID_0)
                 (argument_of next)),
            removeSibling (key p + 1) p)
      else if getSibling p (int (key p) + 2) = Null \<and> isReturnStatement consequent
           \<and> alternate = Null \<and> isExpressionStatement next
      then (let nextExpr = void_of (expression_of next);
                p' = removeSibling (key p + 1) p
            in if argument_of consequent \<noteq> Null
               then (ReturnStatement
                       (ConditionalExpression test (argument_of consequent) nextExpr), p')
               else (ReturnStatement (LogicalExpression ''||'' test nextExpr), p'))
      else if consequent \<noteq> Null \<and> alternate \<noteq> Null
           \<and> (isReturnStatement consequent
                \<or> (isBlockStatement consequent
                    \<and> isReturnStatement (lastStatement (body_of consequent))))
      then (Null,
            p\<lparr>insertedAfter :=
                 (if isBlockStatement alternate then body_of alternate else [alternate]),
              node := IfStatement test consequent Null\<rparr>)
      else (Null, p))"

subsection \<open>IfStatement, second exit hook\<close>

text \<open>
  \<^verbatim>\<open>
  function (node) {
    if (!t.isIfStatement(node.consequent)) return;
    node.test = t.logicalExpression('&&', node.test, node.consequent.test);
    node.consequent = node.consequent.consequent;
  }\<close>
\<close>

fun IfStatement_exit1 :: "node \<Rightarrow> node" where
  "IfStatement_exit1 (IfStatement test (IfStatement itest iconsequent ialternate) alternate) =
     IfStatement (LogicalExpression ''&&'' test itest) iconsequent alternate"
| "IfStatement_exit1 n = n"

subsection \<open>VariableDeclaration, second enter hook\<close>

text \<open>
  \<^verbatim>\<open>
  function (node) {
    if (!this.inList) return;
    let next = this.getSibling(this.key + 1);
    if (!next.isForStatement()) return;
    let init = next.get('init');
    if (!init.isVariableDeclaration({ kind: node.kind })) return;
    init.node.declarations = node.declarations.concat(init.node.declarations);
    this.dangerouslyRemove();
  }\<close>
\<close>

fun set_init :: "node \<Rightarrow> node \<Rightarrow> node" where
  "set_init (ForStatement _ t u b) i = ForStatement i t u b"
| "set_init n i = n"

definition VariableDeclaration_enter1 :: "path \<Rightarrow> path" where
  "VariableDeclaration_enter1 p =
     (if \<not> inList p then p
      else let next = getSibling p (int (key p) + 1) in
        if \<not> isForStatement next then p
        else let init = init_of next in
          if \<not> isVariableDeclarationOfKind (kind_of (node p)) init then p
          else removeSelf
                 (p\<lparr>container := (container p)
                      [key p + 1 :=
                         set_init next
                           (VariableDeclaration (kind_of init)
                              (declarations_of (node p) @ declarations_of init))]\<rparr>))"

subsection \<open>For, second enter hook\<close>

text \<open>
  \<^verbatim>\<open>
  function(node, parent, scope) {
    if (!this.inList || (node.init && !t.isExpression(node.init))) return;
    const prev = this.getSibling(this.key - 1);
    let consumed = false;
    if (prev.isVariableDeclaration()) {
      if (!node.init) { node.init = prev.node; consumed = true; }
    } else if (prev.isExpressionStatement()) {
      const expr = prev.node.expression;
      if (node.init) {
        if (t.isSequenceExpression(expr)) { expr.expressions.push(node.init); node.init = expr; }
        else { node.init = t.sequenceExpression([expr, node.init]); }
      } else { node.init = expr; }
      consumed = true;
    }
    if (consumed) prev.dangerouslyRemove();
  }\<close>
  The hook is registered for every loop kind; on a loop that is not a \<open>ForStatement\<close>
  the assignment to \<open>node.init\<close> adds a property the node kind does not have, which
  \<open>set_init\<close> leaves out.
\<close>

definition For_enter1 :: "path \<Rightarrow> path" where
  "For_enter1 p =
     (let n = node p in
      if \<not> inList p \<or> (init_of n \<noteq> Null \<and> \<not> isExpression (init_of n)) then p
      else let prev = getSibling p (int (key p) - 1) in
        if isVariableDeclaration prev
        then (if init_of n = Null
              then removeSibling (key p - 1) (p\<lparr>node := set_init n prev\<rparr>)
              else p)
        else if isExpressionStatement prev
        then (let expr = expression_of prev;
                  init' =
                    (if init_of n \<noteq> Null
                     then (case expr of
                             SequenceExpression es \<Rightarrow> SequenceExpression (es @ [init_of n])
                           | _ \<Rightarrow> SequenceExpression [expr, init_of n])
                     else expr)
              in removeSibling (key p - 1) (p\<lparr>node := set_init n init'\<rparr>))
        else p)"

subsection \<open>ReturnStatement\<close>

text \<open>
  \<^verbatim>\<open>
  ReturnStatement(node, parent, scope) {
    if (!this.inList) return;
    const prev = this.getSibling(this.key - 1);
    if (!prev.isExpressionStatement()) return;
    let seq = prev.node.expression;
    if (node.argument) {
      if (t.isSequenceExpression(seq)) seq.expressions.push(node.argument);
      else seq = t.sequenceExpression([seq, node.argument]);
    } else {
      if (t.isSequenceExpression(seq)) {
        const lastExpr = seq.expressions[seq.expressions.length - 1];
        seq.expressions[seq.expressions.length - 1] = t.unaryExpression('void', lastExpr);
      } else seq = t.unaryExpression('void', seq);
    }
    if (seq) { prev.dangerouslyRemove(); return t.returnStatement(seq); }
  }\<close>
  On an empty \<open>expressions\<close> array the write goes to index \<open>-1\<close>, which is not an
  element: the array stays empty. \<open>mergedReturnArgument seq argument\<close> is the value of
  \<open>seq\<close> at the final test.
\<close>

fun voidLast :: "node list \<Rightarrow> node list" where
  "voidLast [] = []"
| "voidLast es = butlast es @ [void_of (last es)]"

fun mergedReturnArgument :: "node \<Rightarrow> node \<Rightarrow> node" where
  "mergedReturnArgument (SequenceExpression es) argument =
     (if argument \<noteq> Null then SequenceExpression (es @ [argument])
      else SequenceExpression (voidLast es))"
| "mergedReturnArgument seq argument =
     (if argument \<noteq> Null then SequenceExpression [seq, argument] else void_of seq)"

definition ReturnStatement_visitor :: "path \<Rightarrow> node \<times> path" where
  "ReturnStatement_visitor p =
     (if \<not> inList p then (Null, p)
      else let prev = getSibling p (int (key p) - 1) in
        if \<not> isExpressionStatement prev then (Null, p)
        else let seq = mergedReturnArgument (expression_of prev) (argument_of (node p)) in
          if seq \<noteq> Null
          then (ReturnStatement seq, removeSibling (key p - 1) p)
          else (Null, p))"

section \<open>The sequence folder\<close>

text \<open>
  \<open>convert(nodes)\<close> returns \<open>{ seq }\<close> when every node folded and
  \<open>{ seq, bailed: true, bailedAtIndex: i }\<close> from \<open>bail()\<close>; \<open>seq\<close> is \<open>undefined\<close>
  when no expression was collected.
\<close>

datatype convert_result = Folded node | Bailed node nat

text \<open>
  \<^verbatim>\<open>
  let seq;
  if (exprs.length === 1) seq = exprs[0];
  else if (exprs.length) seq = t.sequenceExpression(exprs);\<close>
\<close>

fun toSeq :: "node list \<Rightarrow> node" where
  "toSeq [] = Null"
| "toSeq [e] = e"
| "toSeq exprs = SequenceExpression exprs"

text \<open>
  \<open>convert_from nodes i exprs\<close> is the loop of \<open>convert\<close> from index \<open>i\<close> on, \<open>nodes\<close>
  being the elements not yet visited and \<open>exprs\<close> the expressions pushed so far.
  \<open>convert_node\<close> is one turn of the loop: the expression it pushes, or \<open>None\<close> where
  the source returns \<open>bail()\<close>. The source tests \<open>t.isExpression(node)\<close> first; an
  expression is none of the three statement kinds, so the order of the equations
  does not matter.
\<close>

fun convert_from :: "node list \<Rightarrow> nat \<Rightarrow> node list \<Rightarrow> convert_result"
  and convert_node :: "node \<Rightarrow> node option" where
  "convert_from [] i exprs = Folded (toSeq exprs)"
| "convert_from (n # ns) i exprs =
     (case convert_node n of
        None \<Rightarrow> Bailed (toSeq exprs) i
      | Some e \<Rightarrow> convert_from ns (Suc i) (exprs @ [e]))"
| "convert_node (ExpressionStatement e) = Some e"
| "convert_node (IfStatement test c a) =
     (case (if c \<noteq> Null then convert_from [c] 0 [] else Folded Null) of
        Bailed _ _ \<Rightarrow> None
      | Folded consequent \<Rightarrow>
          (case (if a \<noteq> Null then convert_from [a] 0 [] else Folded Null) of
             Bailed _ _ \<Rightarrow> None
           | Folded alternate \<Rightarrow>
               Some (if alternate = Null
                     then LogicalExpression ''&&'' test consequent
                     else if consequent = Null
                     then LogicalExpression ''||'' test alternate
                     else ConditionalExpression test consequent alternate)))"
| "convert_node (BlockStatement body) =
     (case convert_from body 0 [] of
        Bailed _ _ \<Rightarrow> None
      | Folded seq \<Rightarrow> Some seq)"
| "convert_node n = (if isExpression n then Some n else None)"

definition convert :: "node list \<Rightarrow> convert_result" where
  "convert nodes = convert_from nodes 0 []"

text \<open>
  \<^verbatim>\<open>
  do {
    let res = convert(statements);
    bailed = res.bailed;
    let {seq, bailedAtIndex} = res;
    if (seq) retStatements.push(t.expressionStatement(seq));
    if (bailed && statements[bailedAtIndex]) retStatements.push(statements[bailedAtIndex]);
    if (bailed) {
      statements = statements.slice(bailedAtIndex + 1);
      if (!statements.length) bailed = false;
    }
  } while (bailed);\<close>
\<close>

definition elementAt :: "node list \<Rightarrow> nat \<Rightarrow> node" where
  "elementAt xs i = (if i < length xs then xs ! i else Null)"

definition pushStatement :: "node \<Rightarrow> node list" where
  "pushStatement s = (if s \<noteq> Null then [s] else [])"

definition pushSeq :: "node \<Rightarrow> node list" where
  "pushSeq seq = (if seq \<noteq> Null then [ExpressionStatement seq] else [])"

function toMultipleSequenceExpressions_loop :: "node list \<Rightarrow> node list \<Rightarrow> node list" where
  "toMultipleSequenceExpressions_loop statements retStatements =
     (case convert statements of
        Folded seq \<Rightarrow> retStatements @ pushSeq seq
      | Bailed seq bailedAtIndex \<Rightarrow>
          (let ret = retStatements @ pushSeq seq
                       @ pushStatement (elementAt statements bailedAtIndex);
               rest = drop (Suc bailedAtIndex) statements
           in if rest = [] then ret else toMultipleSequenceExpressions_loop rest ret))"
  by pat_completeness auto
termination
  by (relation "measure (\<lambda>(statements, retStatements). length statements)") auto

definition toMultipleSequenceExpressions :: "node list \<Rightarrow> node list" where
  "toMultipleSequenceExpressions statements = toMultipleSequenceExpressions_loop statements []"

declare toMultipleSequenceExpressions_loop.simps [simp del]

subsection \<open>The folder as the specification words it\<close>

text \<open>
  The specification describes the folder statement by statement. \<open>contribution s\<close> is
  the expression a statement contributes, \<open>None\<close> for a statement that cannot be
  expressed: an \<open>ExpressionStatement\<close> contributes its expression, a bare expression
  itself, an \<open>IfStatement\<close> whose branches are expressible a conditional, or
  \<open>test && c\<close> when the alternate contributes nothing and \<open>test || a\<close> when the
  consequent contributes nothing, a \<open>BlockStatement\<close> whose statements are all
  expressible the sequence folded from them (nothing, for an empty block).
  \<open>foldStatements exprs statements\<close> walks the list from the left with the
  expressions accumulated so far: at a statement that cannot be expressed it emits
  the accumulated prefix as one \<open>ExpressionStatement\<close> (no statement for a prefix
  that holds nothing), keeps the blocking statement and starts again after it.
\<close>

fun contribution :: "node \<Rightarrow> node option" where
  "contribution (ExpressionStatement e) = Some e"
| "contribution (IfStatement test c a) =
     (case (if c = Null then Some Null else contribution c) of
        None \<Rightarrow> None
      | Some ce \<Rightarrow>
          (case (if a = Null then Some Null else contribution a) of
             None \<Rightarrow> None
           | Some ae \<Rightarrow>
               Some (if ae = Null then LogicalExpression ''&&'' test ce
                     else if ce = Null then LogicalExpression ''||'' test ae
                     else ConditionalExpression test ce ae)))"
| "contribution (BlockStatement body) =
     (if list_all (\<lambda>s. contribution s \<noteq> None) body
      then Some (toSeq (map (\<lambda>s. the (contribution s)) body))
      else None)"
| "contribution n = (if isExpression n then Some n else None)"

definition emitPrefix :: "node list \<Rightarrow> node list" where
  "emitPrefix exprs =
     (if toSeq exprs = Null then [] else [ExpressionStatement (toSeq exprs)])"

fun foldStatements :: "node list \<Rightarrow> node list \<Rightarrow> node list" where
  "foldStatements exprs [] = emitPrefix exprs"
| "foldStatements exprs (s # rest) =
     (case contribution s of
        Some e \<Rightarrow> foldStatements (exprs @ [e]) rest
      | None \<Rightarrow> emitPrefix exprs @ [s] @ foldStatements [] rest)"

section \<open>Values of the target language\<close>

text \<open>
  Modelled from the spec: the evaluator of the target language, an external
  collaborator of the pass (specification, sections 1 and 8) that is not part of the
  repository. Only the fragment the \<open>LogicalExpression\<close> rule touches is modelled:
  literals, variables read from an environment, \<open>!\<close>, \<open>&&\<close> and \<open>||\<close>, with the
  language's truthiness and its short-circuit rule (\<open>a && b\<close> is \<open>a\<close> when \<open>a\<close> is
  falsy and \<open>b\<close> otherwise; \<open>a || b\<close> is \<open>a\<close> when \<open>a\<close> is truthy and \<open>b\<close>
  otherwise). \<open>None\<close> is an expression outside the fragment.
\<close>

datatype jsval = VBool bool | VNum int | VStr string | VNull | VUndefined

fun truthy :: "jsval \<Rightarrow> bool" where
  "truthy (VBool b) = b"
| "truthy (VNum n) = (n \<noteq> 0)"
| "truthy (VStr s) = (s \<noteq> [])"
| "truthy VNull = False"
| "truthy VUndefined = False"

fun literal_value :: "literal \<Rightarrow> jsval" where
  "literal_value (LBool b) = VBool b"
| "literal_value (LNum n) = VNum n"
| "literal_value (LStr s) = VStr s"
| "literal_value LNull = VNull"

fun evaluate :: "(string \<Rightarrow> jsval option) \<Rightarrow> node \<Rightarrow> jsval option" where
  "evaluate env (Literal l) = Some (literal_value l)"
| "evaluate env (Identifier x) = env x"
| "evaluate env (UnaryExpression op arg prefix) =
     (if op = ''!''
      then (case evaluate env arg of None \<Rightarrow> None | Some v \<Rightarrow> Some (VBool (\<not> truthy v)))
      else None)"
| "evaluate env (LogicalExpression op left right) =
     (case evaluate env left of
        None \<Rightarrow> None
      | Some v \<Rightarrow>
          if op = ''&&'' then (if truthy v then evaluate env right else Some v)
          else if op = ''||'' then (if truthy v then Some v else evaluate env right)
          else None)"
| "evaluate env n = None"

section \<open>The remaining hooks\<close>

text \<open>
  The host's predicates (specification, section 6: \<open>isPure\<close>, \<open>baseTypeMatches\<close>,
  \<open>isValidIdentifier\<close>, \<open>isCompletionRecord\<close>), its test for a referenced
  identifier behind the virtual kind \<open>ReferencedIdentifier\<close>, and its convention for
  a hook registered as a bare function (\<open>Literal(node) { ... }\<close>) in place of an
  \<open>enter\<close>/\<open>exit\<close> table: whether such a hook runs on leaving the node, as the
  specification has it for the rules it does not call enter rules, or on entering
  it. None of them is in the repository; the pass takes them as parameters.
\<close>

record host =
  isPure :: "node \<Rightarrow> bool"
  baseTypeStrictlyMatches :: "node \<Rightarrow> node \<Rightarrow> bool"
  isValidIdentifier :: "string \<Rightarrow> bool"
  isCompletionRecord :: "node \<Rightarrow> node \<Rightarrow> bool"
  isReferenced :: "node \<Rightarrow> node \<Rightarrow> bool"
  bareHooksOnExit :: bool
























section \<open>The traversal\<close>























section \<open>Properties\<close>

subsection \<open>The LogicalExpression rule and the value of the expression\<close>

text \<open>
  C1 (semantic preservation, in particular for the rewrite of \<open>!a && b\<close> to
  \<open>a || b\<close>, which the rule applies wherever the expression stands). The rule has no
  test of its context, and the two expressions differ in value whenever \<open>a\<close> is
  truthy: with \<open>a = 1\<close> and \<open>b = 2\<close> the expression \<open>!a && b\<close> is \<open>false\<close> and the
  rewritten \<open>a || b\<close> is \<open>1\<close>. Where the value is observed, as in
  \<open>return !a && b\<close>, the program's return value changes.
\<close>

theorem LogicalExpression_rewrite_changes_value:
  "LogicalExpression_visitor
     (LogicalExpression ''&&'' (UnaryExpression ''!'' (Identifier ''a'') True) (Identifier ''b''))
   = LogicalExpression ''||'' (Identifier ''a'') (Identifier ''b'')
   \<and> evaluate [''a'' \<mapsto> VNum 1, ''b'' \<mapsto> VNum 2]
       (LogicalExpression ''&&'' (UnaryExpression ''!'' (Identifier ''a'') True) (Identifier ''b''))
     = Some (VBool False)
   \<and> evaluate [''a'' \<mapsto> VNum 1, ''b'' \<mapsto> VNum 2]
       (LogicalExpression_visitor
         (LogicalExpression ''&&'' (UnaryExpression ''!'' (Identifier ''a'') True) (Identifier ''b'')))
     = Some (VNum 1)"
  by simp

subsection \<open>The IfStatement hooks\<close>

text \<open>
  C3 (branch coercion: a single-statement block is unwrapped unless the statement is
  a \<open>let\<close> or \<open>const\<close> declaration). \<open>coerceIf\<close> compares the declaration's kind
  with \<open>'let'\<close> the wrong way round: a block holding one \<open>let\<close> declaration is
  unwrapped, in either branch, and a block holding one \<open>var\<close> declaration is left as
  a block. The first exit hook so turns \<open>if (v) { let ...; }\<close> into an \<open>if\<close>
  whose consequent is the bare \<open>let\<close> declaration, and returns no replacement.
\<close>

theorem coerceIf_unwraps_let_keeps_var:
  "coerceIf ''consequent'' (IfStatement x (BlockStatement [VariableDeclaration ''let'' ds]) a)
     = IfStatement x (VariableDeclaration ''let'' ds) a
   \<and> coerceIf ''alternate'' (IfStatement x c (BlockStatement [VariableDeclaration ''let'' ds]))
     = IfStatement x c (VariableDeclaration ''let'' ds)
   \<and> coerceIf ''consequent'' (IfStatement x (BlockStatement [VariableDeclaration ''var'' ds]) a)
     = IfStatement x (BlockStatement [VariableDeclaration ''var'' ds]) a
   \<and> coerceIf ''alternate'' (IfStatement x c (BlockStatement [VariableDeclaration ''var'' ds]))
     = IfStatement x c (BlockStatement [VariableDeclaration ''var'' ds])
   \<and> IfStatement_exit0
       \<lparr>node = IfStatement (Identifier v) (BlockStatement [VariableDeclaration ''let'' ds]) Null,
        container = [], key = 0, inList = False, completionRecord = cr,
        removed = False, insertedAfter = []\<rparr>
     = (Null,
        \<lparr>node = IfStatement (Identifier v) (VariableDeclaration ''let'' ds) Null,
         container = [], key = 0, inList = False, completionRecord = cr,
         removed = False, insertedAfter = []\<rparr>)"
  by (simp add: IfStatement_exit0_def getSibling_def Let_def)

text \<open>
  C4 (if-in-if fold only when the inner \<open>if\<close> has no \<open>alternate\<close>). The second exit
  hook tests only that the consequent is an \<open>IfStatement\<close>: whatever the inner
  alternate is, the fold is made and the inner alternate is gone from the result.
\<close>

theorem IfStatement_exit1_drops_inner_alternate:
  "IfStatement_exit1 (IfStatement test (IfStatement itest iconsequent ialternate) Null)
     = IfStatement (LogicalExpression ''&&'' test itest) iconsequent Null"
  by simp

text \<open>
  C5 (dual return: \<open>return test ? C : A\<close> with \<open>void 0\<close> for an absent argument on
  either side). The source writes \<open>node.consequent.argument || VOID_0\<close> but
  \<open>node.alternate.argument\<close> alone: for \<open>if (x) return c; else return;\<close> at the end
  of its list the conditional's alternate is the empty slot, not \<open>void 0\<close>.
\<close>

theorem dual_return_alternate_without_argument:
  "fst (IfStatement_exit0
     \<lparr>node = IfStatement (Identifier x) (ReturnStatement c) (ReturnStatement Null),
      container = [IfStatement (Identifier x) (ReturnStatement c) (ReturnStatement Null)],
      key = 0, inList = True, completionRecord = cr, removed = False, insertedAfter = []\<rparr>)
   = ReturnStatement (ConditionalExpression (Identifier x) (or_else c VOID_0) Null)"
  by (simp add: IfStatement_exit0_def getSibling_def Let_def)




subsection \<open>The equality flip\<close>

text \<open>
  C7, as amended (the flip applied twice). The second application undoes the first
  exactly when the operator is an equality operator and both operands are pure: the
  result is then the original expression. In every other case the second
  application changes nothing, so twice is the same as once.
\<close>

theorem BinaryExpression_enter0_twice:
  "BinaryExpression_enter0 pure (BinaryExpression_enter0 pure (BinaryExpression op l r))
   = (if op \<in> set EQUALITY_BINARY_OPERATORS \<and> pure l \<and> pure r
      then BinaryExpression op l r
      else BinaryExpression_enter0 pure (BinaryExpression op l r))"
  by simp

text \<open>
  C7 as stated fails: on \<open>1 == 2\<close>, both operands pure, one application gives
  \<open>2 == 1\<close> and the second gives \<open>1 == 2\<close> again.
\<close>

theorem BinaryExpression_enter0_not_idempotent:
  "BinaryExpression_enter0 literalsArePure
     (BinaryExpression_enter0 literalsArePure
        (BinaryExpression ''=='' (Literal (LNum 1)) (Literal (LNum 2))))
   \<noteq> BinaryExpression_enter0 literalsArePure
        (BinaryExpression ''=='' (Literal (LNum 1)) (Literal (LNum 2)))"
  by (simp add: EQUALITY_BINARY_OPERATORS_def)

subsection \<open>The sequence folder\<close>

lemma convert_from_char:
  "convert_from ns i acc =
     (if list_all (\<lambda>n. convert_node n \<noteq> None) ns
      then Folded (toSeq (acc @ map (\<lambda>n. the (convert_node n)) ns))
      else Bailed (toSeq (acc @ map (\<lambda>n. the (convert_node n))
                                 (takeWhile (\<lambda>n. convert_node n \<noteq> None) ns)))
                  (i + length (takeWhile (\<lambda>n. convert_node n \<noteq> None) ns)))"
proof (induction ns arbitrary: i acc)
  case Nil
  show ?case by simp
next
  case (Cons n ns)
  show ?case
  proof (cases "convert_node n")
    case None
    then show ?thesis by simp
  next
    case (Some e)
    then show ?thesis using Cons.IH [of "Suc i" "acc @ [e]"] by simp
  qed
qed

lemma convert_node_contribution: "convert_node n = contribution n"
proof (induction n rule: contribution.induct)
  case (1 e)
  show ?case by simp
next
  case (2 test c a)
  have c: "c \<noteq> Null \<Longrightarrow> convert_node c = contribution c" using 2(1) by simp
  show ?case
  proof (cases "c = Null")
    case True
    note cn = this
    show ?thesis
    proof (cases "a = Null")
      case True
      with cn show ?thesis by simp
    next
      case False
      then have a: "convert_node a = contribution a" using 2(2) [of Null] cn by simp
      show ?thesis using cn False a
        by (cases "contribution a") (simp_all add: convert_from_char)
    qed
  next
    case False
    note cn = this
    then have ceq: "convert_node c = contribution c" using c by simp
    show ?thesis
    proof (cases "contribution c")
      case None
      then show ?thesis using cn ceq by (simp add: convert_from_char)
    next
      case (Some ce)
      show ?thesis
      proof (cases "a = Null")
        case True
        then show ?thesis using cn ceq Some by (simp add: convert_from_char)
      next
        case False
        then have a: "convert_node a = contribution a" using 2(2) [of ce] cn Some by simp
        show ?thesis using cn ceq Some False a
          by (cases "contribution a") (simp_all add: convert_from_char)
      qed
    qed
  qed
next
  case (3 body)
  have "\<And>s. s \<in> set body \<Longrightarrow> convert_node s = contribution s"
    using 3 by simp
  then have m: "map (\<lambda>n. the (convert_node n)) body = map (\<lambda>s. the (contribution s)) body"
    and l: "list_all (\<lambda>n. convert_node n \<noteq> None) body
            = list_all (\<lambda>s. contribution s \<noteq> None) body"
    by (simp_all add: list_all_iff del: not_None_eq)
  show ?case by (simp add: convert_from_char m l del: map_eq_conv not_None_eq)
qed simp_all

lemma foldStatements_char:
  "foldStatements acc ns =
     (if list_all (\<lambda>n. contribution n \<noteq> None) ns
      then emitPrefix (acc @ map (\<lambda>n. the (contribution n)) ns)
      else emitPrefix (acc @ map (\<lambda>n. the (contribution n))
                               (takeWhile (\<lambda>n. contribution n \<noteq> None) ns))
           @ [ns ! length (takeWhile (\<lambda>n. contribution n \<noteq> None) ns)]
           @ foldStatements []
               (drop (Suc (length (takeWhile (\<lambda>n. contribution n \<noteq> None) ns))) ns))"
proof (induction ns arbitrary: acc)
  case Nil
  show ?case by simp
next
  case (Cons n ns)
  show ?case
  proof (cases "contribution n")
    case None
    then show ?thesis by simp
  next
    case (Some e)
    then show ?thesis using Cons.IH [of "acc @ [e]"] by simp
  qed
qed

lemma takeWhile_blocker_in_range:
  "\<not> list_all P ns \<Longrightarrow> length (takeWhile P ns) < length ns"
  by (induction ns) auto

lemma loop_foldStatements:
  "Null \<notin> set statements \<Longrightarrow>
   toMultipleSequenceExpressions_loop statements ret = ret @ foldStatements [] statements"
proof (induction statements ret rule: toMultipleSequenceExpressions_loop.induct)
  case (1 statements ret)
  let ?P = "\<lambda>n. contribution n \<noteq> None"
  let ?pre = "takeWhile ?P statements"
  show ?case
  proof (cases "list_all ?P statements")
    case True
    then have "convert statements = Folded (toSeq (map (\<lambda>n. the (contribution n)) statements))"
      by (simp add: convert_def convert_from_char convert_node_contribution del: not_None_eq)
    moreover have "foldStatements [] statements
        = emitPrefix (map (\<lambda>n. the (contribution n)) statements)"
      using True by (subst foldStatements_char) (simp del: not_None_eq)
    ultimately show ?thesis
      by (subst toMultipleSequenceExpressions_loop.simps)
         (simp add: pushSeq_def emitPrefix_def del: not_None_eq)
  next
    case False
    let ?i = "length ?pre"
    let ?seq = "toSeq (map (\<lambda>n. the (contribution n)) ?pre)"
    let ?rest = "drop (Suc ?i) statements"
    have c: "convert statements = Bailed ?seq ?i"
      using False
      by (simp add: convert_def convert_from_char convert_node_contribution del: not_None_eq)
    have i: "?i < length statements" using False by (rule takeWhile_blocker_in_range)
    then have b: "statements ! ?i \<noteq> Null" using "1.prems" by (metis nth_mem)
    have f: "foldStatements [] statements
        = emitPrefix (map (\<lambda>n. the (contribution n)) ?pre) @ [statements ! ?i]
          @ foldStatements [] ?rest"
      using False by (subst foldStatements_char) (simp del: not_None_eq)
    have r: "Null \<notin> set ?rest" using "1.prems" by (meson in_set_dropD)
    show ?thesis
    proof (cases "?rest = []")
      case True
      then show ?thesis using c i b f
        by (subst toMultipleSequenceExpressions_loop.simps)
           (simp add: pushSeq_def pushStatement_def elementAt_def emitPrefix_def
                 del: not_None_eq)
    next
      case False
      have "toMultipleSequenceExpressions_loop ?rest
              (ret @ pushSeq ?seq @ pushStatement (elementAt statements ?i))
            = (ret @ pushSeq ?seq @ pushStatement (elementAt statements ?i))
              @ foldStatements [] ?rest"
        using "1.IH" [OF c refl refl False r] .
      then show ?thesis using c i b f False
        by (subst toMultipleSequenceExpressions_loop.simps)
           (simp add: pushSeq_def pushStatement_def elementAt_def emitPrefix_def
                 del: not_None_eq)
    qed
  qed
qed

text \<open>
  C9 (partial bail of the sequence folder). On every list of statements the folder
  of the source returns what the statement-by-statement description returns:
  expressions are accumulated from the left, each expressible statement giving its
  contribution; at the first statement that cannot be expressed the accumulated
  prefix is emitted as one \<open>ExpressionStatement\<close>, the blocking statement is kept as
  it is, and folding starts again on the statements after it. The output therefore
  keeps the statements in their original order.
\<close>

theorem toMultipleSequenceExpressions_partial_bail:
  "Null \<notin> set statements \<Longrightarrow>
   toMultipleSequenceExpressions statements = foldStatements [] statements"
  by (simp add: toMultipleSequenceExpressions_def loop_foldStatements)

theorem toMultipleSequenceExpressions_partial_bail_witness:
  "Null \<notin> set [ExpressionStatement (Identifier ''a''),
                 IfStatement (Identifier ''c'')
                   (BlockStatement [ExpressionStatement (Identifier ''d'')]) Null,
                 ReturnStatement Null,
                 ExpressionStatement (Identifier ''b'')]
   \<and> toMultipleSequenceExpressions
       [ExpressionStatement (Identifier ''a''),
        IfStatement (Identifier ''c'')
          (BlockStatement [ExpressionStatement (Identifier ''d'')]) Null,
        ReturnStatement Null,
        ExpressionStatement (Identifier ''b'')]
     = [ExpressionStatement
          (SequenceExpression
             [Identifier ''a'',
              LogicalExpression ''&&'' (Identifier ''c'') (Identifier ''d'')]),
        ReturnStatement Null,
        ExpressionStatement (Identifier ''b'')]"
  using toMultipleSequenceExpressions_partial_bail
    [of "[ExpressionStatement (Identifier ''a''),
          IfStatement (Identifier ''c'')
            (BlockStatement [ExpressionStatement (Identifier ''d'')]) Null,
          ReturnStatement Null,
          ExpressionStatement (Identifier ''b'')]"]
  by (simp add: emitPrefix_def)

subsection \<open>Declarations next to a for statement\<close>

text \<open>
  C6, as amended (merging a declaration into the following \<open>for\<close>). The second enter
  hook of \<open>VariableDeclaration\<close> merges only into a \<open>for\<close> whose \<open>init\<close> is a
  declaration of the same kind: the declarators are put in front of those of the
  \<open>init\<close> and the declaration statement leaves the list. When the \<open>for\<close> has no
  \<open>init\<close> the hook changes nothing; it is the loop's own second enter hook, run when
  the traversal reaches the \<open>for\<close>, that takes the whole declaration as the \<open>init\<close>
  and removes it from the list.
\<close>

theorem VariableDeclaration_enter1_needs_declared_init:
  assumes "inList p"
    and "node p = VariableDeclaration k ds"
    and "key p + 1 < length (container p)"
    and "container p ! key p = node p"
    and "container p ! (key p + 1) = ForStatement init t u b"
  shows "(init = VariableDeclaration k ds' \<longrightarrow>
            VariableDeclaration_enter1 p =
              p\<lparr>container := take (key p) (container p)
                     @ ForStatement (VariableDeclaration k (ds @ ds')) t u b
                     # drop (key p + 2) (container p),
                removed := True\<rparr>)
       \<and> (init = Null \<longrightarrow>
            VariableDeclaration_enter1 p = p
          \<and> For_enter1 (p\<lparr>node := ForStatement Null t u b, key := key p + 1\<rparr>) =
              p\<lparr>node := ForStatement (VariableDeclaration k ds) t u b,
                container := take (key p) (container p) @ drop (key p + 1) (container p),
                key := key p\<rparr>)"
proof -
  have nxt: "getSibling p (int (key p) + 1) = ForStatement init t u b"
    using assms by (simp add: getSibling_def nat_add_distrib)
  have prev: "getSibling (p\<lparr>node := ForStatement Null t u b, key := key p + 1\<rparr>)
                (int (key p + 1) - 1) = VariableDeclaration k ds"
    using assms by (simp add: getSibling_def)
  have upd: "take (key p) ((container p)[Suc (key p) := x]) @ drop (Suc (key p))
               ((container p)[Suc (key p) := x])
             = take (key p) (container p) @ x # drop (key p + 2) (container p)" for x
  proof -
    have "drop (Suc (key p)) ((container p)[Suc (key p) := x])
            = x # drop (Suc (Suc (key p))) (container p)"
      using assms(3) by (simp add: Cons_nth_drop_Suc [symmetric])
    then show ?thesis by simp
  qed
  show ?thesis
  proof (intro conjI impI)
    assume "init = VariableDeclaration k ds'"
    then show "VariableDeclaration_enter1 p =
              p\<lparr>container := take (key p) (container p)
                     @ ForStatement (VariableDeclaration k (ds @ ds')) t u b
                     # drop (key p + 2) (container p),
                removed := True\<rparr>"
      using assms(1,2) nxt upd
      by (simp add: VariableDeclaration_enter1_def removeSelf_def)
  next
    assume "init = Null"
    then show "VariableDeclaration_enter1 p = p"
      using assms(1,2) nxt by (simp add: VariableDeclaration_enter1_def)
  next
    assume "init = Null"
    show "For_enter1 (p\<lparr>node := ForStatement Null t u b, key := key p + 1\<rparr>) =
              p\<lparr>node := ForStatement (VariableDeclaration k ds) t u b,
                container := take (key p) (container p) @ drop (key p + 1) (container p),
                key := key p\<rparr>"
      using assms(1) prev by (simp add: For_enter1_def removeSibling_def)
  qed
qed

theorem VariableDeclaration_enter1_needs_declared_init_witness:
  "VariableDeclaration_enter1
     \<lparr>node = VariableDeclaration ''var'' [VariableDeclarator (Identifier ''a'') (Literal (LNum 1))],
      container =
        [VariableDeclaration ''var'' [VariableDeclarator (Identifier ''a'') (Literal (LNum 1))],
         ForStatement
           (VariableDeclaration ''var'' [VariableDeclarator (Identifier ''c'') (Literal (LNum 3))])
           (Identifier ''t'') Null (ExpressionStatement (Identifier ''g''))],
      key = 0, inList = True, completionRecord = False, removed = False, insertedAfter = []\<rparr>
   = \<lparr>node = VariableDeclaration ''var'' [VariableDeclarator (Identifier ''a'') (Literal (LNum 1))],
      container =
        [ForStatement
           (VariableDeclaration ''var''
              [VariableDeclarator (Identifier ''a'') (Literal (LNum 1)),
               VariableDeclarator (Identifier ''c'') (Literal (LNum 3))])
           (Identifier ''t'') Null (ExpressionStatement (Identifier ''g''))],
      key = 0, inList = True, completionRecord = False, removed = True, insertedAfter = []\<rparr>
   \<and> For_enter1
     \<lparr>node = ForStatement Null (Identifier ''t'') Null (ExpressionStatement (Identifier ''g'')),
      container =
        [VariableDeclaration ''var'' [VariableDeclarator (Identifier ''a'') (Literal (LNum 1))],
         ForStatement Null (Identifier ''t'') Null (ExpressionStatement (Identifier ''g''))],
      key = 1, inList = True, completionRecord = False, removed = False, insertedAfter = []\<rparr>
   = \<lparr>node = ForStatement
               (VariableDeclaration ''var''
                  [VariableDeclarator (Identifier ''a'') (Literal (LNum 1))])
               (Identifier ''t'') Null (ExpressionStatement (Identifier ''g'')),
      container =
        [ForStatement Null (Identifier ''t'') Null (ExpressionStatement (Identifier ''g''))],
      key = 0, inList = True, completionRecord = False, removed = False, insertedAfter = []\<rparr>"
proof -
  let ?decl = "VariableDeclaration ''var''
                 [VariableDeclarator (Identifier ''a'') (Literal (LNum 1))]"
  let ?init = "VariableDeclaration ''var''
                 [VariableDeclarator (Identifier ''c'') (Literal (LNum 3))]"
  let ?body = "ExpressionStatement (Identifier ''g'')"
  have declared:
    "VariableDeclaration_enter1
       \<lparr>node = ?decl, container = [?decl, ForStatement ?init (Identifier ''t'') Null ?body],
        key = 0, inList = True, completionRecord = False, removed = False,
        insertedAfter = []\<rparr>
     = \<lparr>node = ?decl,
        container =
          [ForStatement
             (VariableDeclaration ''var''
                [VariableDeclarator (Identifier ''a'') (Literal (LNum 1)),
                 VariableDeclarator (Identifier ''c'') (Literal (LNum 3))])
             (Identifier ''t'') Null ?body],
        key = 0, inList = True, completionRecord = False, removed = True,
        insertedAfter = []\<rparr>"
    using VariableDeclaration_enter1_needs_declared_init
      [of "\<lparr>node = ?decl,
            container = [?decl, ForStatement ?init (Identifier ''t'') Null ?body],
            key = 0, inList = True, completionRecord = False, removed = False,
            insertedAfter = []\<rparr>"
          "''var''" "[VariableDeclarator (Identifier ''a'') (Literal (LNum 1))]"
          ?init "Identifier ''t''" Null ?body
          "[VariableDeclarator (Identifier ''c'') (Literal (LNum 3))]"]
    by simp
  have absent:
    "For_enter1
       \<lparr>node = ForStatement Null (Identifier ''t'') Null ?body,
        container = [?decl, ForStatement Null (Identifier ''t'') Null ?body],
        key = 1, inList = True, completionRecord = False, removed = False,
        insertedAfter = []\<rparr>
     = \<lparr>node = ForStatement ?decl (Identifier ''t'') Null ?body,
        container = [ForStatement Null (Identifier ''t'') Null ?body],
        key = 0, inList = True, completionRecord = False, removed = False,
        insertedAfter = []\<rparr>"
    using VariableDeclaration_enter1_needs_declared_init
      [of "\<lparr>node = ?decl,
            container = [?decl, ForStatement Null (Identifier ''t'') Null ?body],
            key = 0, inList = True, completionRecord = False, removed = False,
            insertedAfter = []\<rparr>"
          "''var''" "[VariableDeclarator (Identifier ''a'') (Literal (LNum 1))]"
          Null "Identifier ''t''" Null ?body "[]"]
    by simp
  show ?thesis using declared absent by simp
qed

text \<open>
  C6 as stated fails where the \<open>for\<close> has no \<open>init\<close>: on \<open>var a = 1; for (;t;) g;\<close>
  the hook leaves the path as it was, with the declaration still in the list and the
  \<open>for\<close> still without an \<open>init\<close>.
\<close>

theorem VariableDeclaration_enter1_absent_init_unchanged:
  "VariableDeclaration_enter1
     \<lparr>node = VariableDeclaration ''var'' [VariableDeclarator (Identifier ''a'') (Literal (LNum 1))],
      container =
        [VariableDeclaration ''var'' [VariableDeclarator (Identifier ''a'') (Literal (LNum 1))],
         ForStatement Null (Identifier ''t'') Null (ExpressionStatement (Identifier ''g''))],
      key = 0, inList = True, completionRecord = False, removed = False, insertedAfter = []\<rparr>
   = \<lparr>node = VariableDeclaration ''var'' [VariableDeclarator (Identifier ''a'') (Literal (LNum 1))],
      container =
        [VariableDeclaration ''var'' [VariableDeclarator (Identifier ''a'') (Literal (LNum 1))],
         ForStatement Null (Identifier ''t'') Null (ExpressionStatement (Identifier ''g''))],
      key = 0, inList = True, completionRecord = False, removed = False, insertedAfter = []\<rparr>
   \<and> container (VariableDeclaration_enter1
     \<lparr>node = VariableDeclaration ''var'' [VariableDeclarator (Identifier ''a'') (Literal (LNum 1))],
      container =
        [VariableDeclaration ''var'' [VariableDeclarator (Identifier ''a'') (Literal (LNum 1))],
         ForStatement Null (Identifier ''t'') Null (ExpressionStatement (Identifier ''g''))],
      key = 0, inList = True, completionRecord = False, removed = False, insertedAfter = []\<rparr>)
   \<noteq> [ForStatement
         (VariableDeclaration ''var'' [VariableDeclarator (Identifier ''a'') (Literal (LNum 1))])
         (Identifier ''t'') Null (ExpressionStatement (Identifier ''g''))]"
  by (simp add: VariableDeclaration_enter1_def getSibling_def)

subsection \<open>A return after an expression statement\<close>

text \<open>
  C10 (implicit rule of \<open>ReturnStatement\<close>). For a \<open>return\<close> in a list whose previous
  sibling is an \<open>ExpressionStatement\<close>, the previous statement is removed and the
  hook's replacement is a \<open>return\<close>: with an argument, of the previous expression
  comma-joined before the argument (the members of a previous sequence followed by
  the argument); without one, of the previous expression wrapped in \<open>void\<close>, or of
  the previous sequence with its last member wrapped in \<open>void\<close>.
\<close>

theorem ReturnStatement_merges_previous_expression:
  assumes "inList p"
    and "node p = ReturnStatement arg"
    and "0 < key p"
    and "key p < length (container p)"
    and "container p ! (key p - 1) = ExpressionStatement e"
  shows "(arg \<noteq> Null \<longrightarrow>
            fst (ReturnStatement_visitor p) =
              ReturnStatement
                (SequenceExpression
                   ((case e of SequenceExpression es \<Rightarrow> es | _ \<Rightarrow> [e]) @ [arg])))
       \<and> (arg = Null \<and> \<not> isSequenceExpression e \<longrightarrow>
            fst (ReturnStatement_visitor p) = ReturnStatement (void_of e))
       \<and> (arg = Null \<and> e = SequenceExpression es \<and> es \<noteq> [] \<longrightarrow>
            fst (ReturnStatement_visitor p) =
              ReturnStatement (SequenceExpression (butlast es @ [void_of (last es)])))
       \<and> container (snd (ReturnStatement_visitor p)) =
            take (key p - 1) (container p) @ drop (key p) (container p)
       \<and> key (snd (ReturnStatement_visitor p)) = key p - 1"
proof -
  have prev: "getSibling p (int (key p) - 1) = ExpressionStatement e"
    using assms by (simp add: getSibling_def nat_diff_distrib')
  have m: "mergedReturnArgument e arg \<noteq> Null"
    by (cases e) (simp_all add: void_of_def)
  have r: "ReturnStatement_visitor p =
             (ReturnStatement (mergedReturnArgument e arg), removeSibling (key p - 1) p)"
    using assms(1,2) prev m by (simp add: ReturnStatement_visitor_def)
  have a: "arg \<noteq> Null \<Longrightarrow> mergedReturnArgument e arg =
             SequenceExpression ((case e of SequenceExpression es \<Rightarrow> es | _ \<Rightarrow> [e]) @ [arg])"
    by (cases e) simp_all
  have b: "arg = Null \<Longrightarrow> \<not> isSequenceExpression e \<Longrightarrow>
             mergedReturnArgument e arg = void_of e"
    by (cases e) simp_all
  have c: "arg = Null \<Longrightarrow> e = SequenceExpression es \<Longrightarrow> es \<noteq> [] \<Longrightarrow>
             mergedReturnArgument e arg
               = SequenceExpression (butlast es @ [void_of (last es)])"
    by (cases es) simp_all
  have d: "Suc (key p - 1) = key p" using assms(3) by simp
  show ?thesis using a b c d assms(3) by (simp add: r removeSibling_def)
qed

theorem ReturnStatement_merges_previous_expression_witness:
  "fst (ReturnStatement_visitor
     \<lparr>node = ReturnStatement (Identifier ''x''),
      container = [ExpressionStatement (CallExpression (Identifier ''f'') []),
                   ReturnStatement (Identifier ''x'')],
      key = 1, inList = True, completionRecord = False, removed = False, insertedAfter = []\<rparr>)
   = ReturnStatement
       (SequenceExpression [CallExpression (Identifier ''f'') [], Identifier ''x''])
   \<and> container (snd (ReturnStatement_visitor
     \<lparr>node = ReturnStatement (Identifier ''x''),
      container = [ExpressionStatement (CallExpression (Identifier ''f'') []),
                   ReturnStatement (Identifier ''x'')],
      key = 1, inList = True, completionRecord = False, removed = False, insertedAfter = []\<rparr>))
   = [ReturnStatement (Identifier ''x'')]
   \<and> key (snd (ReturnStatement_visitor
     \<lparr>node = ReturnStatement (Identifier ''x''),
      container = [ExpressionStatement (CallExpression (Identifier ''f'') []),
                   ReturnStatement (Identifier ''x'')],
      key = 1, inList = True, completionRecord = False, removed = False, insertedAfter = []\<rparr>))
   = 0
   \<and> fst (ReturnStatement_visitor
     \<lparr>node = ReturnStatement Null,
      container = [ExpressionStatement (CallExpression (Identifier ''f'') []),
                   ReturnStatement Null],
      key = 1, inList = True, completionRecord = False, removed = False, insertedAfter = []\<rparr>)
   = ReturnStatement (UnaryExpression ''void'' (CallExpression (Identifier ''f'') []) False)
   \<and> fst (ReturnStatement_visitor
     \<lparr>node = ReturnStatement Null,
      container = [ExpressionStatement
                     (SequenceExpression [Identifier ''a'', Identifier ''b'']),
                   ReturnStatement Null],
      key = 1, inList = True, completionRecord = False, removed = False, insertedAfter = []\<rparr>)
   = ReturnStatement
       (SequenceExpression
          [Identifier ''a'', UnaryExpression ''void'' (Identifier ''b'') False])"
proof -
  have with_argument:
    "fst (ReturnStatement_visitor
       \<lparr>node = ReturnStatement (Identifier ''x''),
        container = [ExpressionStatement (CallExpression (Identifier ''f'') []),
                     ReturnStatement (Identifier ''x'')],
        key = 1, inList = True, completionRecord = False, removed = False,
        insertedAfter = []\<rparr>)
     = ReturnStatement
         (SequenceExpression [CallExpression (Identifier ''f'') [], Identifier ''x''])
     \<and> container (snd (ReturnStatement_visitor
       \<lparr>node = ReturnStatement (Identifier ''x''),
        container = [ExpressionStatement (CallExpression (Identifier ''f'') []),
                     ReturnStatement (Identifier ''x'')],
        key = 1, inList = True, completionRecord = False, removed = False,
        insertedAfter = []\<rparr>))
     = [ReturnStatement (Identifier ''x'')]
     \<and> key (snd (ReturnStatement_visitor
       \<lparr>node = ReturnStatement (Identifier ''x''),
        container = [ExpressionStatement (CallExpression (Identifier ''f'') []),
                     ReturnStatement (Identifier ''x'')],
        key = 1, inList = True, completionRecord = False, removed = False,
        insertedAfter = []\<rparr>))
     = 0"
    using ReturnStatement_merges_previous_expression
      [of "\<lparr>node = ReturnStatement (Identifier ''x''),
            container = [ExpressionStatement (CallExpression (Identifier ''f'') []),
                         ReturnStatement (Identifier ''x'')],
            key = 1, inList = True, completionRecord = False, removed = False,
            insertedAfter = []\<rparr>"
          "Identifier ''x''" "CallExpression (Identifier ''f'') []" "[]"]
    by simp
  have without_argument:
    "fst (ReturnStatement_visitor
       \<lparr>node = ReturnStatement Null,
        container = [ExpressionStatement (CallExpression (Identifier ''f'') []),
                     ReturnStatement Null],
        key = 1, inList = True, completionRecord = False, removed = False,
        insertedAfter = []\<rparr>)
     = ReturnStatement (UnaryExpression ''void'' (CallExpression (Identifier ''f'') []) False)"
    using ReturnStatement_merges_previous_expression
      [of "\<lparr>node = ReturnStatement Null,
            container = [ExpressionStatement (CallExpression (Identifier ''f'') []),
                         ReturnStatement Null],
            key = 1, inList = True, completionRecord = False, removed = False,
            insertedAfter = []\<rparr>"
          Null "CallExpression (Identifier ''f'') []" "[]"]
    by (simp add: void_of_def)
  have sequence_without_argument:
    "fst (ReturnStatement_visitor
       \<lparr>node = ReturnStatement Null,
        container = [ExpressionStatement
                       (SequenceExpression [Identifier ''a'', Identifier ''b'']),
                     ReturnStatement Null],
        key = 1, inList = True, completionRecord = False, removed = False,
        insertedAfter = []\<rparr>)
     = ReturnStatement
         (SequenceExpression
            [Identifier ''a'', UnaryExpression ''void'' (Identifier ''b'') False])"
    using ReturnStatement_merges_previous_expression
      [of "\<lparr>node = ReturnStatement Null,
            container = [ExpressionStatement
                           (SequenceExpression [Identifier ''a'', Identifier ''b'']),
                         ReturnStatement Null],
            key = 1, inList = True, completionRecord = False, removed = False,
            insertedAfter = []\<rparr>"
          Null "SequenceExpression [Identifier ''a'', Identifier ''b'']"
          "[Identifier ''a'', Identifier ''b'']"]
    by (simp add: void_of_def)
  show ?thesis using with_argument without_argument sequence_without_argument by simp
qed

subsection \<open>The whole pass on a single comparison\<close>




















end
